theory Spec2Isabelle
  imports Complex_Main
begin

section \<open>Adaptive prioritisation: \<open>src/iterativeRefinement.js\<close>\<close>

text \<open>
  The class \<open>ElementPrioritizer\<close> owns two mutable fields, \<open>elementStats\<close> (a
  \<open>Map\<close> from selector key to a stats object) and \<open>interactions\<close> (an array used as
  an append-only log). Each method is modelled as a function that takes the object's
  state and returns the new state next to its result.

  JavaScript numbers are modelled as \<open>real\<close> in this section: the durations, the
  weights and the random draws that reach these methods are finite, and the only
  division (by \<open>stats.interactions\<close>, just incremented) has a positive divisor.
  IEEE-754 rounding is not modelled.
\<close>

subsection \<open>Data\<close>

text \<open>
  \<open>getPriority\<close> returns one of the string literals \<open>'skip'\<close>, \<open>'high'\<close>,
  \<open>'medium'\<close>, \<open>'low'\<close>; the same strings are the keys of \<open>weights\<close> and of the
  categorized object.
\<close>

datatype tier = High | Medium | Low | Skip

text \<open>
  An object with the three keys \<open>high\<close>, \<open>medium\<close>, \<open>low\<close>, in that insertion
  order: the categorized lists and the weight table have this shape.
\<close>

record 'a tiers =
  high :: 'a
  medium :: 'a
  low :: 'a

text \<open>The item \<open>{ element, type: key, priority }\<close> built by \<open>categorizeElements\<close>.\<close>

record 'e item =
  element :: 'e
  type_key :: string
  priority :: tier

text \<open>The stats object \<open>{ interactions, avgHoverTime, traced }\<close> of one selector key.\<close>

record stats =
  stat_interactions :: nat
  avgHoverTime :: real
  traced :: nat

text \<open>A log entry \<open>{ type, action, duration, timestamp }\<close>.\<close>

record interaction =
  log_type :: string
  action :: string
  duration :: real
  timestamp :: real

record ElementPrioritizer =
  elementStats :: "string \<rightharpoonup> stats"
  interactions :: "interaction list"

definition constructor :: ElementPrioritizer where
  "constructor = \<lparr>elementStats = Map.empty, interactions = []\<rparr>"

subsection \<open>\<open>getPriority\<close>\<close>

definition highPriority :: "string list" where
  "highPriority = [''chartLabels'', ''leaderTitle'', ''recommendationTexts'', ''recommendationItems'']"

definition mediumPriority :: "string list" where
  "mediumPriority = [''chartSegments'', ''chartCircles'', ''avatar'', ''badges'']"

definition skip :: "string list" where
  "skip = [''container'', ''dividers'']"

text \<open>
  The second parameter, \<open>selectors\<close>, is accepted and never read; it is kept as a
  parameter of any type.
\<close>

definition getPriority :: "string \<Rightarrow> 's \<Rightarrow> tier" where
  "getPriority selectorKey selectors =
     (if selectorKey \<in> set skip then Skip
      else if selectorKey \<in> set highPriority then High
      else if selectorKey \<in> set mediumPriority then Medium
      else Low)"

subsection \<open>\<open>getWeightedRandomElement\<close>\<close>

text \<open>
  Lines 108 to 127: the weight table starts at 50/30/20 and is overwritten in place by
  two successive tests on \<open>this.interactions.length\<close>.
\<close>

definition weights_of :: "nat \<Rightarrow> real tiers" where
  "weights_of totalInteractions =
     (let weights = \<lparr>high = 50, medium = 30, low = 20\<rparr>;
          weights = (if totalInteractions > 10
                     then weights\<lparr>high := 60, medium := 25, low := 15\<rparr> else weights);
          weights = (if totalInteractions > 20
                     then weights\<lparr>high := 70, medium := 20, low := 10\<rparr> else weights)
      in weights)"

text \<open>\<open>Object.entries\<close> of an object with the keys \<open>high\<close>, \<open>medium\<close>, \<open>low\<close>.\<close>

definition entries :: "'a tiers \<Rightarrow> (tier \<times> 'a) list" where
  "entries w = [(High, high w), (Medium, medium w), (Low, low w)]"

text \<open>
  \<open>categorized[priority]\<close>. The loop only asks for the three keys of \<open>weights\<close>; the
  key \<open>'skip'\<close> does not exist on the object, and reading it would give \<open>undefined\<close>,
  whose \<open>.length\<close> throws: that case is \<open>None\<close>.
\<close>

fun lookup_tier :: "'a tiers \<Rightarrow> tier \<Rightarrow> 'a option" where
  "lookup_tier c High = Some (high c)"
| "lookup_tier c Medium = Some (medium c)"
| "lookup_tier c Low = Some (low c)"
| "lookup_tier c Skip = None"

text \<open>
  \<open>items[Math.floor(r * items.length)]\<close> for a draw \<open>r\<close> of \<open>Math.random()\<close>. A read
  outside the array gives \<open>undefined\<close> in JavaScript and does not throw; \<open>undefined\<close>
  is \<open>None\<close>.
\<close>

definition pick :: "'a list \<Rightarrow> real \<Rightarrow> 'a option" where
  "pick items r =
     (let i = \<lfloor>r * real (length items)\<rfloor>
      in if 0 \<le> i \<and> i < int (length items) then Some (items ! nat i) else None)"

datatype js_error = TypeError

text \<open>
  The \<open>for ... of Object.entries(weights)\<close> loop with its running sum. The result is
  \<open>Inr (Some v)\<close> when the loop body executes \<open>return\<close> with the value \<open>v\<close>,
  \<open>Inr None\<close> when the loop runs off its end, and \<open>Inl TypeError\<close> where the source
  would throw.
\<close>

fun walk :: "real \<Rightarrow> real \<Rightarrow> real \<Rightarrow> (tier \<times> real) list \<Rightarrow> 'a list tiers
    \<Rightarrow> js_error + 'a option option" where
  "walk rand r2 cumulative [] categorized = Inr None"
| "walk rand r2 cumulative ((prio, weight) # rest) categorized =
     (let cumulative = cumulative + weight in
      if rand \<le> cumulative then
        (case lookup_tier categorized prio of
           None \<Rightarrow> Inl TypeError
         | Some items \<Rightarrow>
             if length items > 0 then Inr (Some (pick items r2))
             else walk rand r2 cumulative rest categorized)
      else walk rand r2 cumulative rest categorized)"

text \<open>
  The whole method. \<open>r1\<close> is the draw of the first \<open>Math.random()\<close> call (line 129),
  \<open>r2\<close> the draw of the second one, which is either the call inside the loop (line
  136) or the call of the fallback (line 146): exactly one of the two is executed.
\<close>

definition getWeightedRandomElement ::
    "ElementPrioritizer \<Rightarrow> 'a list tiers \<Rightarrow> real \<Rightarrow> real \<Rightarrow> js_error + 'a option" where
  "getWeightedRandomElement this categorized r1 r2 =
     (let weights = weights_of (length (interactions this));
          rand = r1 * 100
      in case walk rand r2 0 (entries weights) categorized of
           Inl e \<Rightarrow> Inl e
         | Inr (Some v) \<Rightarrow> Inr v
         | Inr None \<Rightarrow>
             (let allItems = high categorized @ medium categorized @ low categorized
              in Inr (pick allItems r2)))"

subsection \<open>\<open>categorizeElements\<close>\<close>

text \<open>
  The argument \<open>elements\<close> is a plain object from selector key to an array of element
  handles; \<open>Object.entries\<close> lists it in insertion order, so it is an association list
  here. Element handles are opaque: a type variable.

  The body of the \<open>forEach\<close> callback, for one element: build the item, push it on the
  list of its tier, and create the stats entry of the key when there is none.
\<close>

fun forEach_element :: "string \<Rightarrow> tier \<Rightarrow> 'e list
    \<Rightarrow> 'e item list tiers \<times> (string \<rightharpoonup> stats) \<Rightarrow> 'e item list tiers \<times> (string \<rightharpoonup> stats)" where
  "forEach_element key prio [] acc = acc"
| "forEach_element key prio (el # elementList) (categorized, es) =
     (let it = \<lparr>element = el, type_key = key, priority = prio\<rparr>;
          categorized =
            (if prio = High then categorized\<lparr>high := high categorized @ [it]\<rparr>
             else if prio = Medium then categorized\<lparr>medium := medium categorized @ [it]\<rparr>
             else categorized\<lparr>low := low categorized @ [it]\<rparr>);
          es =
            (if es key = None
             then es(key \<mapsto> \<lparr>stat_interactions = 0, avgHoverTime = 0, traced = 0\<rparr>)
             else es)
      in forEach_element key prio elementList (categorized, es))"

text \<open>The outer \<open>for ... of Object.entries(elements)\<close> loop, with its \<open>continue\<close>.\<close>

fun for_entries :: "'s \<Rightarrow> (string \<times> 'e list) list
    \<Rightarrow> 'e item list tiers \<times> (string \<rightharpoonup> stats) \<Rightarrow> 'e item list tiers \<times> (string \<rightharpoonup> stats)" where
  "for_entries selectors [] acc = acc"
| "for_entries selectors ((key, elementList) # rest) acc =
     (let prio = getPriority key selectors in
      if prio = Skip then for_entries selectors rest acc
      else for_entries selectors rest (forEach_element key prio elementList acc))"

definition categorizeElements :: "ElementPrioritizer \<Rightarrow> (string \<times> 'e list) list \<Rightarrow> 's
    \<Rightarrow> 'e item list tiers \<times> ElementPrioritizer" where
  "categorizeElements this elements selectors =
     (case for_entries selectors elements
             (\<lparr>high = [], medium = [], low = []\<rparr>, elementStats this) of
        (categorized, es) \<Rightarrow> (categorized, this\<lparr>elementStats := es\<rparr>))"

subsection \<open>\<open>recordInteraction\<close>\<close>

text \<open>
  \<open>Date.now()\<close> is read from the environment: the parameter \<open>now\<close>. The default
  values of \<open>duration\<close> and \<open>action\<close> are the caller's business; every call in the
  repository passes all four arguments.
\<close>

definition recordInteraction :: "ElementPrioritizer \<Rightarrow> string \<Rightarrow> 'e \<Rightarrow> real \<Rightarrow> string \<Rightarrow> real
    \<Rightarrow> ElementPrioritizer" where
  "recordInteraction this type el dur act now =
     (let this = this\<lparr>interactions := interactions this @
                   [\<lparr>log_type = type, action = act, duration = dur, timestamp = now\<rparr>]\<rparr>
      in case elementStats this type of
           None \<Rightarrow> this
         | Some stats \<Rightarrow>
             (let stats = stats\<lparr>stat_interactions := stat_interactions stats + 1\<rparr>;
                  stats =
                    (if dur > 0
                     then stats\<lparr>avgHoverTime :=
                            (avgHoverTime stats * (real (stat_interactions stats) - 1) + dur)
                            / real (stat_interactions stats)\<rparr>
                     else stats);
                  stats =
                    (if act = ''trace'' then stats\<lparr>traced := traced stats + 1\<rparr> else stats)
              in this\<lparr>elementStats := (elementStats this)(type \<mapsto> stats)\<rparr>))"

subsection \<open>The lists a categorization is expected to return\<close>

text \<open>
  A reference for the theorems about \<open>categorizeElements\<close>, not a translation of any
  source function: the items of tier \<open>t\<close>, in input order, are the elements of every
  entry whose key is classified \<open>t\<close>, each tagged with its key and with \<open>t\<close>.
\<close>

definition tier_items :: "'s \<Rightarrow> tier \<Rightarrow> (string \<times> 'e list) list \<Rightarrow> 'e item list" where
  "tier_items selectors t elements =
     concat (map (\<lambda>(key, elementList).
                    map (\<lambda>el. \<lparr>element = el, type_key = key, priority = t\<rparr>) elementList)
                 (filter (\<lambda>(key, elementList). getPriority key selectors = t) elements))"

subsection \<open>A sequence of calls of \<open>recordInteraction\<close>\<close>

text \<open>
  Not a source function: the calls \<open>recordInteraction(type, el, dur, act)\<close> made one
  after the other for one \<open>type\<close>, each with the clock reading \<open>now\<close> at its time.
\<close>

fun record_calls :: "ElementPrioritizer \<Rightarrow> string \<Rightarrow> ('e \<times> real \<times> string \<times> real) list
    \<Rightarrow> ElementPrioritizer" where
  "record_calls this type [] = this"
| "record_calls this type ((el, dur, act, now) # calls) =
     record_calls (recordInteraction this type el dur act now) type calls"

section \<open>Motion synthesis: \<open>src/mouseUtils.js\<close> and the replay loop of \<open>src/index-focused.js\<close>\<close>

subsection \<open>JavaScript numbers\<close>

text \<open>
  The motion code divides by a step count, compares against bounds and, in the replay
  loop, tests \<open>isFinite\<close> and uses \<open>point.x || 0\<close>: the values \<open>NaN\<close>, \<open>Infinity\<close> and
  \<open>-Infinity\<close> are part of its behaviour. A JavaScript number is therefore a real
  number or one of these three values. The arithmetic on the finite values is that of
  the reals: IEEE-754 rounding, overflow to an infinity and the sign of zero are not
  modelled (a division of a non-zero finite number by zero gives the infinity with the
  sign of the numerator). Two consequences bound what is proved below. A sum or a
  product of finite values is finite here, while a double overflows near
  \<open>Number.MAX_VALUE\<close>: the theorems speak of the magnitudes at which the arithmetic of
  the code does not overflow, and none of them states the finiteness of what a
  generator computes as a property of the code. A counter advanced by repeated
  addition is exact here, while the code rounds at every addition: the counter of the
  code is this one when the step is a whole number (below \<open>2\<^sup>5\<^sup>3\<close>), and the theorems
  about loops take whole steps only.
\<close>

datatype jsnum = Fin real | PInf | NInf | NaN

text \<open>The sign of a number, 0 for \<open>NaN\<close> and for zero.\<close>

fun sign_of :: "jsnum \<Rightarrow> real" where
  "sign_of (Fin a) = sgn a"
| "sign_of PInf = 1"
| "sign_of NInf = - 1"
| "sign_of NaN = 0"

definition inf_of_sign :: "real \<Rightarrow> jsnum" where
  "inf_of_sign s = (if s = 0 then NaN else if 0 < s then PInf else NInf)"

instantiation jsnum :: "{plus, minus, uminus, times, inverse, ord}"
begin

fun uminus_jsnum :: "jsnum \<Rightarrow> jsnum" where
  "uminus_jsnum (Fin a) = Fin (- a)"
| "uminus_jsnum PInf = NInf"
| "uminus_jsnum NInf = PInf"
| "uminus_jsnum NaN = NaN"

fun plus_jsnum :: "jsnum \<Rightarrow> jsnum \<Rightarrow> jsnum" where
  "plus_jsnum (Fin a) (Fin b) = Fin (a + b)"
| "plus_jsnum NaN v = NaN"
| "plus_jsnum v NaN = NaN"
| "plus_jsnum PInf NInf = NaN"
| "plus_jsnum NInf PInf = NaN"
| "plus_jsnum PInf v = PInf"
| "plus_jsnum v PInf = PInf"
| "plus_jsnum NInf v = NInf"
| "plus_jsnum v NInf = NInf"

definition minus_jsnum :: "jsnum \<Rightarrow> jsnum \<Rightarrow> jsnum" where
  "minus_jsnum u v = u + (- v)"

fun times_jsnum :: "jsnum \<Rightarrow> jsnum \<Rightarrow> jsnum" where
  "times_jsnum (Fin a) (Fin b) = Fin (a * b)"
| "times_jsnum NaN v = NaN"
| "times_jsnum v NaN = NaN"
| "times_jsnum u v = inf_of_sign (sign_of u * sign_of v)"

fun divide_jsnum :: "jsnum \<Rightarrow> jsnum \<Rightarrow> jsnum" where
  "divide_jsnum (Fin a) (Fin b) = (if b \<noteq> 0 then Fin (a / b) else inf_of_sign (sgn a))"
| "divide_jsnum NaN v = NaN"
| "divide_jsnum v NaN = NaN"
| "divide_jsnum (Fin a) v = Fin 0"
| "divide_jsnum u (Fin b) = inf_of_sign (sign_of u * (if b < 0 then - 1 else 1))"
| "divide_jsnum u v = NaN"

definition inverse_jsnum :: "jsnum \<Rightarrow> jsnum" where
  "inverse_jsnum v = divide (Fin 1) v"

text \<open>The comparisons \<open><\<close> and \<open><=\<close>: false as soon as an operand is \<open>NaN\<close>.\<close>

fun less_jsnum :: "jsnum \<Rightarrow> jsnum \<Rightarrow> bool" where
  "less_jsnum (Fin a) (Fin b) = (a < b)"
| "less_jsnum NaN v = False"
| "less_jsnum v NaN = False"
| "less_jsnum v NInf = False"
| "less_jsnum PInf v = False"
| "less_jsnum u v = True"

fun less_eq_jsnum :: "jsnum \<Rightarrow> jsnum \<Rightarrow> bool" where
  "less_eq_jsnum (Fin a) (Fin b) = (a \<le> b)"
| "less_eq_jsnum NaN v = False"
| "less_eq_jsnum v NaN = False"
| "less_eq_jsnum NInf v = True"
| "less_eq_jsnum v PInf = True"
| "less_eq_jsnum u v = False"

instance ..

end

text \<open>
  \<open>Math.pow\<close> with a literal exponent (2 and 3 in the source), \<open>Math.sqrt\<close>,
  \<open>Math.floor\<close>, \<open>Math.max\<close>, \<open>Math.min\<close>, the global \<open>isFinite\<close>, and \<open>v || 0\<close> on a
  number (0 and \<open>NaN\<close> are the falsy numbers).
\<close>

fun Math_pow :: "jsnum \<Rightarrow> nat \<Rightarrow> jsnum" where
  "Math_pow v 0 = Fin 1"
| "Math_pow (Fin a) n = Fin (a ^ n)"
| "Math_pow PInf n = PInf"
| "Math_pow NInf n = (if odd n then NInf else PInf)"
| "Math_pow NaN n = NaN"

fun Math_sqrt :: "jsnum \<Rightarrow> jsnum" where
  "Math_sqrt (Fin a) = (if a < 0 then NaN else Fin (sqrt a))"
| "Math_sqrt PInf = PInf"
| "Math_sqrt NInf = NaN"
| "Math_sqrt NaN = NaN"

fun Math_floor :: "jsnum \<Rightarrow> jsnum" where
  "Math_floor (Fin a) = Fin (of_int \<lfloor>a\<rfloor>)"
| "Math_floor v = v"

definition Math_max :: "jsnum \<Rightarrow> jsnum \<Rightarrow> jsnum" where
  "Math_max u v = (if u = NaN \<or> v = NaN then NaN else if u < v then v else u)"

definition Math_min :: "jsnum \<Rightarrow> jsnum \<Rightarrow> jsnum" where
  "Math_min u v = (if u = NaN \<or> v = NaN then NaN else if v < u then v else u)"

text \<open>\<open>Math.PI\<close>, \<open>Math.cos\<close> and \<open>Math.sin\<close>; the last two give \<open>NaN\<close> off the finite numbers.\<close>

definition Math_PI :: jsnum where
  "Math_PI = Fin pi"

fun Math_cos :: "jsnum \<Rightarrow> jsnum" where
  "Math_cos (Fin a) = Fin (cos a)"
| "Math_cos v = NaN"

fun Math_sin :: "jsnum \<Rightarrow> jsnum" where
  "Math_sin (Fin a) = Fin (sin a)"
| "Math_sin v = NaN"



subsection \<open>\<open>easeInOutCubic\<close> and \<open>random\<close>\<close>

definition easeInOutCubic :: "jsnum \<Rightarrow> jsnum" where
  "easeInOutCubic t =
     (if t < Fin 0.5 then Fin 4 * t * t * t
      else Fin 1 - Math_pow (Fin (- 2) * t + Fin 2) 3 / Fin 2)"

text \<open>
  \<open>random(min, max)\<close> reads \<open>Math.random()\<close>, a finite number in \<open>[0, 1)\<close>: the draw is
  the parameter \<open>r\<close>.
\<close>

definition random :: "jsnum \<Rightarrow> jsnum \<Rightarrow> real \<Rightarrow> jsnum" where
  "random lo hi r = Fin r * (hi - lo) + lo"

subsection \<open>Counting loops\<close>

text \<open>
  \<open>for (let i = i0; i <= bound; i += step) body(i)\<close>,
  \<open>for (let i = i0; i >= bound; i -= step) body(i)\<close> and
  \<open>for (let i = i0; i < bound; i += step) body(i)\<close>, where the body does not assign
  \<open>i\<close>: the values of \<open>i\<close> at which the body runs, in order. Such a loop need not end
  (a step of 0, an infinite bound); not returning is \<open>None\<close>. With a fractional step
  the counter of the code, rounded at every addition, can leave the loop one iteration
  earlier or later than this one.
\<close>

partial_function (option) for_up :: "jsnum \<Rightarrow> jsnum \<Rightarrow> jsnum \<Rightarrow> jsnum list \<Rightarrow> jsnum list option" where
  "for_up i bound step done =
     (if i \<le> bound then for_up (i + step) bound step (done @ [i]) else Some done)"

partial_function (option) for_down :: "jsnum \<Rightarrow> jsnum \<Rightarrow> jsnum \<Rightarrow> jsnum list \<Rightarrow> jsnum list option" where
  "for_down i bound step done =
     (if bound \<le> i then for_down (i - step) bound step (done @ [i]) else Some done)"


declare for_up.simps [code]

declare for_down.simps [code]



subsection \<open>\<open>moveMouse\<close> and \<open>swiftMoveTo\<close>\<close>

text \<open>
  The pointer-move collaborator \<open>page.mouse.move(x, y)\<close> is the only effect that
  matters here: a motion function returns the list of the coordinates it passes to
  it, in order. The pauses (\<open>sleep\<close>) and the draws that only set their length are
  left out.

  One iteration of the loop body shared by \<open>moveMouse\<close> and \<open>swiftMoveTo\<close>: the point
  of the quadratic curve at step \<open>i\<close> of \<open>steps\<close>.
\<close>

definition bezier_step :: "jsnum \<Rightarrow> jsnum \<Rightarrow> jsnum \<Rightarrow> jsnum \<Rightarrow> jsnum \<Rightarrow> jsnum \<Rightarrow> jsnum
    \<Rightarrow> jsnum \<Rightarrow> jsnum \<times> jsnum" where
  "bezier_step fromX fromY toX toY curveX curveY steps i =
     (let progress = i / steps;
          eased = easeInOutCubic progress;
          t = eased;
          t1 = Fin 1 - t;
          x = t1 * t1 * fromX + Fin 2 * t1 * t * (fromX + curveX) + t * t * toX;
          y = t1 * t1 * fromY + Fin 2 * t1 * t * (fromY + curveY) + t * t * toY
      in (x, y))"

text \<open>
  \<open>r1\<close>, \<open>r2\<close>, \<open>r3\<close> are the draws of the three \<open>Math.random()\<close> calls that shape the
  curve: the intensity, then the two offsets of the control point. \<open>steps\<close> is the
  argument as the function body sees it (50 when the caller leaves it out; the callers
  in the repository pass \<open>randomInt(...)\<close>, a whole number).
\<close>

definition moveMouse :: "jsnum \<Rightarrow> jsnum \<Rightarrow> jsnum \<Rightarrow> jsnum \<Rightarrow> jsnum \<Rightarrow> real \<Rightarrow> real \<Rightarrow> real
    \<Rightarrow> (jsnum \<times> jsnum) list option" where
  "moveMouse fromX fromY toX toY steps r1 r2 r3 =
     (let curveIntensity = random (Fin 50) (Fin 150) r1;
          curveX = (Fin r2 - Fin 0.5) * curveIntensity;
          curveY = (Fin r3 - Fin 0.5) * curveIntensity
      in map_option (map (bezier_step fromX fromY toX toY curveX curveY steps))
           (for_up (Fin 0) steps (Fin 1) []))"

definition swiftMoveTo :: "jsnum \<Rightarrow> jsnum \<Rightarrow> jsnum \<Rightarrow> jsnum \<Rightarrow> real \<Rightarrow> real \<Rightarrow> real
    \<Rightarrow> (jsnum \<times> jsnum) list option" where
  "swiftMoveTo fromX fromY toX toY r1 r2 r3 =
     (let distance = Math_sqrt (Math_pow (toX - fromX) 2 + Math_pow (toY - fromY) 2);
          steps = Math_max (Fin 20) (Math_min (Fin 40) (Math_floor (distance / Fin 15)));
          curveIntensity = random (Fin 20) (Fin 40) r1;
          curveX = (Fin r2 - Fin 0.5) * curveIntensity;
          curveY = (Fin r3 - Fin 0.5) * curveIntensity
      in map_option (map (bezier_step fromX fromY toX toY curveX curveY steps))
           (for_up (Fin 0) steps (Fin 1) []))"

subsection \<open>\<open>traceElementOutline\<close>\<close>

text \<open>
  \<open>element.boundingBox()\<close> gives \<open>null\<close> or an object \<open>{ x, y, width, height }\<close>.
\<close>

record box =
  box_x :: jsnum
  box_y :: jsnum
  box_width :: jsnum
  box_height :: jsnum

text \<open>
  The four loops, in source order: top, right, bottom, left. The constant \<open>steps\<close>
  computed on line 84 is never read and is left out.
\<close>

definition traceElementOutline :: "box option \<Rightarrow> jsnum \<Rightarrow> (jsnum \<times> jsnum) list option" where
  "traceElementOutline bbox speed =
     (case bbox of
        None \<Rightarrow> Some []
      | Some b \<Rightarrow>
          (let x = box_x b; y = box_y b; width = box_width b; height = box_height b in
           case for_up (Fin 0) width speed [] of
             None \<Rightarrow> None
           | Some topEdge \<Rightarrow>
          (case for_up (Fin 0) height speed [] of
             None \<Rightarrow> None
           | Some rightEdge \<Rightarrow>
          (case for_down width (Fin 0) speed [] of
             None \<Rightarrow> None
           | Some bottomEdge \<Rightarrow>
          (case for_down height (Fin 0) speed [] of
             None \<Rightarrow> None
           | Some leftEdge \<Rightarrow>
               Some (map (\<lambda>i. (x + i, y)) topEdge
                   @ map (\<lambda>i. (x + width, y + i)) rightEdge
                   @ map (\<lambda>i. (x + i, y + height)) bottomEdge
                   @ map (\<lambda>i. (x, y + i)) leftEdge))))))"

subsection \<open>\<open>moveInCircle\<close> and \<open>circleAroundElement\<close>\<close>


definition circleAroundElement :: "jsnum \<Rightarrow> jsnum \<Rightarrow> jsnum \<Rightarrow> real
    \<Rightarrow> (jsnum \<times> jsnum) list option" where
  "circleAroundElement centerX centerY radius r =
     (let segments = Fin 30;
          startAngle = random (Fin 0) (Math_PI * Fin 2) r
      in map_option
           (map (\<lambda>i. let angle = startAngle + (i / segments) * Math_PI * Fin 2;
                        x = centerX + Math_cos angle * radius;
                        y = centerY + Math_sin angle * radius
                    in (x, y)))
           (for_up (Fin 0) segments (Fin 1) []))"

subsection \<open>\<open>hoverElement\<close>\<close>


subsection \<open>\<open>idleMovement\<close>\<close>


subsection \<open>The hover wobble of \<open>ultraRealisticInteraction\<close>\<close>



subsection \<open>The replay loop of \<open>moveToElement\<close>\<close>



subsection \<open>Reading a run\<close>


section \<open>Properties of the prioritisation engine\<close>

subsection \<open>Weight escalation\<close>

text \<open>
  Claim C2. Whatever the state of the prioritizer, the weight table used by the
  selection is 50/30/20 while at most 10 interactions are logged, 60/25/15 from 11 to
  20, and 70/20/10 above 20; at 0, 11 and 21 logged interactions it is 50/30/20,
  60/25/15 and 70/20/10.
\<close>

theorem weights_of_escalation:
  "weights_of n =
     (if n \<le> 10 then \<lparr>high = 50, medium = 30, low = 20\<rparr>
      else if n \<le> 20 then \<lparr>high = 60, medium = 25, low = 15\<rparr>
      else \<lparr>high = 70, medium = 20, low = 10\<rparr>)
   \<and> weights_of 0 = \<lparr>high = 50, medium = 30, low = 20\<rparr>
   \<and> weights_of 11 = \<lparr>high = 60, medium = 25, low = 15\<rparr>
   \<and> weights_of 21 = \<lparr>high = 70, medium = 20, low = 10\<rparr>"
  by (simp add: weights_of_def)

theorem weights_of_escalation_witness:
  "weights_of 10 = \<lparr>high = 50, medium = 30, low = 20\<rparr>
   \<and> weights_of 20 = \<lparr>high = 60, medium = 25, low = 15\<rparr>"
  using weights_of_escalation [of 10] weights_of_escalation [of 20] by simp

subsection \<open>The classification ignores its table argument\<close>

text \<open>
  Claim C10. \<open>getPriority\<close> gives the same tier for any two values of its
  \<open>selectors\<close> argument: the tier is \<open>skip\<close> for \<open>container\<close> and \<open>dividers\<close>, else
  \<open>high\<close> for the four keys of the high list, else \<open>medium\<close> for the four keys of the
  medium list, else \<open>low\<close>.
\<close>

theorem getPriority_ignores_selectors:
  "getPriority key s1 = getPriority key s2
   \<and> getPriority key s1 =
       (if key \<in> {''container'', ''dividers''} then Skip
        else if key \<in> {''chartLabels'', ''leaderTitle'', ''recommendationTexts'',
                          ''recommendationItems''} then High
        else if key \<in> {''chartSegments'', ''chartCircles'', ''avatar'', ''badges''} then Medium
        else Low)"
  by (simp add: getPriority_def skip_def highPriority_def mediumPriority_def)

subsection \<open>Selection on an empty categorized set\<close>

text \<open>
  Claim C7. When the three lists are empty, \<open>getWeightedRandomElement\<close> returns
  \<open>undefined\<close> (no candidate) and does not throw, for every state of the prioritizer
  and every pair of random draws.
\<close>

theorem getWeightedRandomElement_empty:
  "getWeightedRandomElement this \<lparr>high = [], medium = [], low = []\<rparr> r1 r2 = Inr None"
  by (simp add: getWeightedRandomElement_def entries_def pick_def Let_def)

subsection \<open>Tier exclusivity of the categorization\<close>

lemma forEach_element_eq:
  "forEach_element key prio els (c, es) =
     ((if prio = High
       then c\<lparr>high := high c @ map (\<lambda>el. \<lparr>element = el, type_key = key, priority = prio\<rparr>) els\<rparr>
       else if prio = Medium
       then c\<lparr>medium := medium c @ map (\<lambda>el. \<lparr>element = el, type_key = key, priority = prio\<rparr>) els\<rparr>
       else c\<lparr>low := low c @ map (\<lambda>el. \<lparr>element = el, type_key = key, priority = prio\<rparr>) els\<rparr>),
      (if els \<noteq> [] \<and> es key = None
       then es(key \<mapsto> \<lparr>stat_interactions = 0, avgHoverTime = 0, traced = 0\<rparr>) else es))"
  by (induction els arbitrary: c es) (auto simp: Let_def)

lemma tier_items_Nil [simp]: "tier_items sel t [] = []"
  by (simp add: tier_items_def)

lemma tier_items_Cons [simp]:
  "tier_items sel t ((key, els) # rest) =
     (if getPriority key sel = t
      then map (\<lambda>el. \<lparr>element = el, type_key = key, priority = t\<rparr>) els @ tier_items sel t rest
      else tier_items sel t rest)"
  by (simp add: tier_items_def)

lemma set_tier_items:
  "set (tier_items sel t elements) =
     {\<lparr>element = el, type_key = key, priority = t\<rparr> | el key.
        getPriority key sel = t \<and> (\<exists>els. (key, els) \<in> set elements \<and> el \<in> set els)}"
  by (induction elements) (auto simp: tier_items_def)

lemma for_entries_fst:
  "fst (for_entries sel elements (c, es)) =
     \<lparr>high = high c @ tier_items sel High elements,
      medium = medium c @ tier_items sel Medium elements,
      low = low c @ tier_items sel Low elements\<rparr>"
proof (induction elements arbitrary: c es)
  case Nil
  then show ?case by simp
next
  case (Cons entry rest)
  obtain key els where entry: "entry = (key, els)" by (cases entry)
  show ?case
    by (cases "getPriority key sel") (simp_all add: entry forEach_element_eq Cons.IH)
qed

lemma for_entries_snd:
  "snd (for_entries sel elements (c, es)) k =
     (if es k = None \<and> (\<exists>els. (k, els) \<in> set elements \<and> els \<noteq> [] \<and> getPriority k sel \<noteq> Skip)
      then Some \<lparr>stat_interactions = 0, avgHoverTime = 0, traced = 0\<rparr> else es k)"
proof (induction elements arbitrary: c es)
  case Nil
  then show ?case by simp
next
  case (Cons entry rest)
  obtain key els where entry: "entry = (key, els)" by (cases entry)
  show ?case
    by (cases "getPriority key sel = Skip") (auto simp: entry forEach_element_eq Cons.IH Let_def)
qed

lemma categorizeElements_eq:
  assumes "categorizeElements this elements selectors = (categorized, this')"
  shows "categorized = fst (for_entries selectors elements
                             (\<lparr>high = [], medium = [], low = []\<rparr>, elementStats this))"
    and "this' = this\<lparr>elementStats := snd (for_entries selectors elements
                             (\<lparr>high = [], medium = [], low = []\<rparr>, elementStats this))\<rparr>"
  using assms by (auto simp: categorizeElements_def split: prod.splits)

text \<open>
  Claim C5. For any input object, any table argument and any prior state, let
  \<open>categorizeElements\<close> return the lists \<open>categorized\<close> and leave the state \<open>this'\<close>.
  Each returned list holds exactly the elements of the entries whose key is classified
  in that tier, in input order; every item of a list has a key of that list's tier, so
  no item of a key classified \<open>skip\<close> is in any list; an element found under a key is
  in the list of the key's tier and in no other list, and in none when the tier is
  \<open>skip\<close>; a key classified \<open>skip\<close> has the stats entry it had before the call (none, if
  it had none); the log is untouched.
\<close>

theorem categorizeElements_tier_exclusive:
  assumes "categorizeElements this elements selectors = (categorized, this')"
  shows "high categorized = tier_items selectors High elements
       \<and> medium categorized = tier_items selectors Medium elements
       \<and> low categorized = tier_items selectors Low elements
       \<and> (\<forall>it \<in> set (high categorized). getPriority (type_key it) selectors = High)
       \<and> (\<forall>it \<in> set (medium categorized). getPriority (type_key it) selectors = Medium)
       \<and> (\<forall>it \<in> set (low categorized). getPriority (type_key it) selectors = Low)
       \<and> (\<forall>(key, elementList) \<in> set elements. \<forall>el \<in> set elementList.
            (let it = \<lparr>element = el, type_key = key, priority = getPriority key selectors\<rparr>
             in (it \<in> set (high categorized) \<longleftrightarrow> getPriority key selectors = High)
              \<and> (it \<in> set (medium categorized) \<longleftrightarrow> getPriority key selectors = Medium)
              \<and> (it \<in> set (low categorized) \<longleftrightarrow> getPriority key selectors = Low)))
       \<and> (\<forall>key. getPriority key selectors = Skip
              \<longrightarrow> elementStats this' key = elementStats this key)
       \<and> interactions this' = interactions this"
proof -
  note eqs = categorizeElements_eq [OF assms]
  have h: "high categorized = tier_items selectors High elements"
    and m: "medium categorized = tier_items selectors Medium elements"
    and l: "low categorized = tier_items selectors Low elements"
    by (simp_all add: eqs(1) for_entries_fst)
  have st: "elementStats this' key = elementStats this key"
    if "getPriority key selectors = Skip" for key
    using that by (simp add: eqs(2) for_entries_snd)
  have log: "interactions this' = interactions this"
    by (simp add: eqs(2))
  have mem: "\<forall>(key, elementList) \<in> set elements. \<forall>el \<in> set elementList.
            (let it = \<lparr>element = el, type_key = key, priority = getPriority key selectors\<rparr>
             in (it \<in> set (high categorized) \<longleftrightarrow> getPriority key selectors = High)
              \<and> (it \<in> set (medium categorized) \<longleftrightarrow> getPriority key selectors = Medium)
              \<and> (it \<in> set (low categorized) \<longleftrightarrow> getPriority key selectors = Low))"
    unfolding h m l set_tier_items Let_def by auto
  show ?thesis
    using h m l st log mem by (auto simp: set_tier_items)
qed

text \<open>
  A run on four keys, one of each tier: \<open>container\<close> (skip), \<open>chartLabels\<close> (high),
  \<open>avatar\<close> (medium), \<open>title\<close> (low). Element handles are numbers here.
\<close>

lemma categorizeElements_example:
  "categorizeElements constructor
     [(''container'', [1::nat]), (''chartLabels'', [2, 3]), (''avatar'', [4]), (''title'', [5])] () =
     (\<lparr>high = [\<lparr>element = 2, type_key = ''chartLabels'', priority = High\<rparr>,
               \<lparr>element = 3, type_key = ''chartLabels'', priority = High\<rparr>],
       medium = [\<lparr>element = 4, type_key = ''avatar'', priority = Medium\<rparr>],
       low = [\<lparr>element = 5, type_key = ''title'', priority = Low\<rparr>]\<rparr>,
      \<lparr>elementStats =
         [''chartLabels'' \<mapsto> \<lparr>stat_interactions = 0, avgHoverTime = 0, traced = 0\<rparr>,
          ''avatar'' \<mapsto> \<lparr>stat_interactions = 0, avgHoverTime = 0, traced = 0\<rparr>,
          ''title'' \<mapsto> \<lparr>stat_interactions = 0, avgHoverTime = 0, traced = 0\<rparr>],
       interactions = []\<rparr>)"
  by (simp add: categorizeElements_def constructor_def getPriority_def skip_def
        highPriority_def mediumPriority_def Let_def)

theorem categorizeElements_tier_exclusive_witness:
  "tier_items () High
     [(''container'', [1::nat]), (''chartLabels'', [2, 3]), (''avatar'', [4]), (''title'', [5])]
     = [\<lparr>element = 2, type_key = ''chartLabels'', priority = High\<rparr>,
        \<lparr>element = 3, type_key = ''chartLabels'', priority = High\<rparr>]
   \<and> tier_items () Medium
     [(''container'', [1::nat]), (''chartLabels'', [2, 3]), (''avatar'', [4]), (''title'', [5])]
     = [\<lparr>element = 4, type_key = ''avatar'', priority = Medium\<rparr>]
   \<and> tier_items () Low
     [(''container'', [1::nat]), (''chartLabels'', [2, 3]), (''avatar'', [4]), (''title'', [5])]
     = [\<lparr>element = 5, type_key = ''title'', priority = Low\<rparr>]"
proof -
  note run = categorizeElements_tier_exclusive [OF categorizeElements_example]
  have h: "tier_items () High
     [(''container'', [1::nat]), (''chartLabels'', [2, 3]), (''avatar'', [4]), (''title'', [5])]
     = [\<lparr>element = 2, type_key = ''chartLabels'', priority = High\<rparr>,
        \<lparr>element = 3, type_key = ''chartLabels'', priority = High\<rparr>]"
    using run [THEN conjunct1] by (simp only: tiers.select_convs)
  have m: "tier_items () Medium
     [(''container'', [1::nat]), (''chartLabels'', [2, 3]), (''avatar'', [4]), (''title'', [5])]
     = [\<lparr>element = 4, type_key = ''avatar'', priority = Medium\<rparr>]"
    using run [THEN conjunct2, THEN conjunct1] by (simp only: tiers.select_convs)
  have l: "tier_items () Low
     [(''container'', [1::nat]), (''chartLabels'', [2, 3]), (''avatar'', [4]), (''title'', [5])]
     = [\<lparr>element = 5, type_key = ''title'', priority = Low\<rparr>]"
    using run [THEN conjunct2, THEN conjunct2, THEN conjunct1] by (simp only: tiers.select_convs)
  from h m l show ?thesis by (intro conjI)
qed

subsection \<open>The walk over the weight table\<close>

lemma walk_entries:
  "walk rand r2 0 (entries w) categorized =
     Inr (if rand \<le> high w \<and> high categorized \<noteq> [] then Some (pick (high categorized) r2)
          else if rand \<le> high w + medium w \<and> medium categorized \<noteq> []
            then Some (pick (medium categorized) r2)
          else if rand \<le> high w + medium w + low w \<and> low categorized \<noteq> []
            then Some (pick (low categorized) r2)
          else None)"
  by (simp add: entries_def Let_def)

lemma weights_of_sum: "high (weights_of n) + medium (weights_of n) + low (weights_of n) = 100"
  by (simp add: weights_of_def Let_def)

text \<open>
  Claim C6, as stated, fails. With no interaction logged the table is 50/30/20. Take
  an empty high list, one medium item and one low item, and the draws \<open>r1 = 0.1\<close>
  (so \<open>rand = 10\<close>, which reaches the bound 50 of the high tier first) and
  \<open>r2 = 0.9\<close>. The high tier is empty, and the loop itself returns the medium item, an
  element of a later tier; the flat pick over the union of the lists would have been
  the low item.
\<close>

theorem walk_later_tier_counterexample:
  "(1 / 10 * 100 :: real) \<le> high (weights_of (length (interactions constructor)))
   \<and> high \<lparr>high = [],
            medium = [\<lparr>element = 1::nat, type_key = ''avatar'', priority = Medium\<rparr>],
            low = [\<lparr>element = 2, type_key = ''title'', priority = Low\<rparr>]\<rparr> = []
   \<and> walk (1 / 10 * 100) (9 / 10) 0 (entries (weights_of (length (interactions constructor))))
        \<lparr>high = [],
         medium = [\<lparr>element = 1::nat, type_key = ''avatar'', priority = Medium\<rparr>],
         low = [\<lparr>element = 2, type_key = ''title'', priority = Low\<rparr>]\<rparr>
      = Inr (Some (Some \<lparr>element = 1, type_key = ''avatar'', priority = Medium\<rparr>))
   \<and> getWeightedRandomElement constructor
        \<lparr>high = [],
         medium = [\<lparr>element = 1::nat, type_key = ''avatar'', priority = Medium\<rparr>],
         low = [\<lparr>element = 2, type_key = ''title'', priority = Low\<rparr>]\<rparr> (1 / 10) (9 / 10)
      = Inr (Some \<lparr>element = 1, type_key = ''avatar'', priority = Medium\<rparr>)
   \<and> pick ([] @ [\<lparr>element = 1::nat, type_key = ''avatar'', priority = Medium\<rparr>] @
              [\<lparr>element = 2, type_key = ''title'', priority = Low\<rparr>]) (9 / 10)
      = Some \<lparr>element = 2, type_key = ''title'', priority = Low\<rparr>"
  by (simp add: getWeightedRandomElement_def walk_entries weights_of_def constructor_def
        pick_def Let_def)

text \<open>
  Claim C6, amended. For a draw \<open>r1\<close> in \<open>[0,1)\<close> the method returns a pick from the
  first tier, in the order high, medium, low, whose cumulative bound \<open>rand = 100 r1\<close>
  has reached and whose list is not empty: an empty tier is passed over and the walk
  goes on to the later tiers. The flat pick over the concatenation of the three lists
  is made only when every tier from the first one reached onwards is empty. In
  particular, when the high tier is reached and empty and the medium list is not
  empty, the result is a pick from the medium list.
\<close>

theorem getWeightedRandomElement_walk:
  assumes "0 \<le> r1" and "r1 < 1"
  shows "getWeightedRandomElement this categorized r1 r2 =
     (let w = weights_of (length (interactions this)); rand = r1 * 100 in
      Inr (if rand \<le> high w \<and> high categorized \<noteq> [] then pick (high categorized) r2
           else if rand \<le> high w + medium w \<and> medium categorized \<noteq> []
             then pick (medium categorized) r2
           else if low categorized \<noteq> [] then pick (low categorized) r2
           else pick (high categorized @ medium categorized @ low categorized) r2))
    \<and> (r1 * 100 \<le> high (weights_of (length (interactions this)))
         \<and> high categorized = [] \<and> medium categorized \<noteq> []
       \<longrightarrow> getWeightedRandomElement this categorized r1 r2 = Inr (pick (medium categorized) r2))"
proof -
  define w where "w = weights_of (length (interactions this))"
  have top: "r1 * 100 \<le> high w + medium w + low w"
    using assms by (simp add: w_def weights_of_sum)
  have mid: "0 \<le> medium w"
    by (simp add: w_def weights_of_def Let_def)
  have run: "getWeightedRandomElement this categorized r1 r2 =
      Inr (if r1 * 100 \<le> high w \<and> high categorized \<noteq> [] then pick (high categorized) r2
           else if r1 * 100 \<le> high w + medium w \<and> medium categorized \<noteq> []
             then pick (medium categorized) r2
           else if low categorized \<noteq> [] then pick (low categorized) r2
           else pick (high categorized @ medium categorized @ low categorized) r2)"
    using top by (simp add: getWeightedRandomElement_def walk_entries Let_def w_def)
  have later: "getWeightedRandomElement this categorized r1 r2 = Inr (pick (medium categorized) r2)"
    if "r1 * 100 \<le> high w" "high categorized = []" "medium categorized \<noteq> []"
    using that mid by (simp add: run)
  show ?thesis
    unfolding Let_def w_def [symmetric]
  proof (intro conjI impI)
    show "getWeightedRandomElement this categorized r1 r2 =
      Inr (if r1 * 100 \<le> high w \<and> high categorized \<noteq> [] then pick (high categorized) r2
           else if r1 * 100 \<le> high w + medium w \<and> medium categorized \<noteq> []
             then pick (medium categorized) r2
           else if low categorized \<noteq> [] then pick (low categorized) r2
           else pick (high categorized @ medium categorized @ low categorized) r2)"
      by (rule run)
  next
    assume "r1 * 100 \<le> high w \<and> high categorized = [] \<and> medium categorized \<noteq> []"
    then show "getWeightedRandomElement this categorized r1 r2 = Inr (pick (medium categorized) r2)"
      using later by blast
  qed
qed

theorem getWeightedRandomElement_walk_witness:
  "getWeightedRandomElement constructor
        \<lparr>high = [],
         medium = [\<lparr>element = 1::nat, type_key = ''avatar'', priority = Medium\<rparr>],
         low = [\<lparr>element = 2, type_key = ''title'', priority = Low\<rparr>]\<rparr> (1 / 10) (9 / 10)
      = Inr (pick [\<lparr>element = 1::nat, type_key = ''avatar'', priority = Medium\<rparr>] (9 / 10))"
proof -
  have r: "(0::real) \<le> 1 / 10" "(1 / 10 :: real) < 1" by simp_all
  have reached: "(1 / 10 :: real) * 100 \<le> high (weights_of (length (interactions constructor)))"
    by (simp add: weights_of_def constructor_def Let_def)
  from getWeightedRandomElement_walk [OF r, THEN conjunct2, rule_format, of constructor
        "\<lparr>high = [],
         medium = [\<lparr>element = 1::nat, type_key = ''avatar'', priority = Medium\<rparr>],
         low = [\<lparr>element = 2, type_key = ''title'', priority = Low\<rparr>]\<rparr>" "9 / 10"] reached
  show ?thesis by simp
qed

subsection \<open>The running mean of \<open>recordInteraction\<close>\<close>

text \<open>
  When every call for a type has a positive duration, the counter \<open>interactions\<close> of
  its stats entry is the number of averaged durations, and the stored average of a
  fresh entry is their arithmetic mean.
\<close>

lemma recordInteraction_positive:
  assumes "elementStats this type = Some st" and "0 < dur"
  shows "\<exists>st'. elementStats (recordInteraction this type el dur act now) type = Some st'
           \<and> stat_interactions st' = stat_interactions st + 1
           \<and> avgHoverTime st' * real (stat_interactions st')
               = avgHoverTime st * real (stat_interactions st) + dur"
  using assms by (simp add: recordInteraction_def Let_def)

lemma record_calls_positive:
  assumes "elementStats this type = Some st"
    and "\<forall>c \<in> set calls. 0 < fst (snd c)"
  shows "\<exists>st'. elementStats (record_calls this type calls) type = Some st'
           \<and> stat_interactions st' = stat_interactions st + length calls
           \<and> avgHoverTime st' * real (stat_interactions st')
               = avgHoverTime st * real (stat_interactions st) + sum_list (map (\<lambda>c. fst (snd c)) calls)"
  using assms
proof (induction calls arbitrary: this st)
  case Nil
  then show ?case by simp
next
  case (Cons c calls)
  obtain el dur act now where c: "c = (el, dur, act, now)" by (cases c)
  from Cons.prems have pos: "0 < dur" and rest: "\<forall>c \<in> set calls. 0 < fst (snd c)"
    by (simp_all add: c)
  from recordInteraction_positive [OF Cons.prems(1) pos, of el act now]
  obtain st1 where st1: "elementStats (recordInteraction this type el dur act now) type = Some st1"
    and n1: "stat_interactions st1 = stat_interactions st + 1"
    and a1: "avgHoverTime st1 * real (stat_interactions st1)
               = avgHoverTime st * real (stat_interactions st) + dur"
    by blast
  from Cons.IH [OF st1 rest]
  obtain st' where "elementStats (record_calls (recordInteraction this type el dur act now) type calls) type
        = Some st'"
    and "stat_interactions st' = stat_interactions st1 + length calls"
    and "avgHoverTime st' * real (stat_interactions st')
               = avgHoverTime st1 * real (stat_interactions st1) + sum_list (map (\<lambda>c. fst (snd c)) calls)"
    by blast
  then show ?case using n1 a1 by (simp add: c)
qed

lemma record_calls_mean:
  assumes "elementStats this type = Some \<lparr>stat_interactions = 0, avgHoverTime = 0, traced = 0\<rparr>"
    and "\<forall>c \<in> set calls. 0 < fst (snd c)" and "calls \<noteq> []"
  shows "map_option avgHoverTime (elementStats (record_calls this type calls) type)
           = Some (sum_list (map (\<lambda>c. fst (snd c)) calls) / real (length calls))"
proof -
  from record_calls_positive [OF assms(1,2)]
  obtain st' where s: "elementStats (record_calls this type calls) type = Some st'"
    and n: "stat_interactions st' = length calls"
    and a: "avgHoverTime st' * real (stat_interactions st') = sum_list (map (\<lambda>c. fst (snd c)) calls)"
    by auto
  have "0 < real (length calls)" using assms(3) by simp
  then have "avgHoverTime st' = sum_list (map (\<lambda>c. fst (snd c)) calls) / real (length calls)"
    using a n by (simp add: field_simps)
  then show ?thesis using s by simp
qed

text \<open>
  The state after \<open>categorizeElements\<close> has seen one element under \<open>chartLabels\<close>: one
  stats entry, all zero, and an empty log.
\<close>

lemma categorizeElements_chartLabels:
  "snd (categorizeElements constructor [(''chartLabels'', [0::nat])] ()) =
     \<lparr>elementStats =
        [''chartLabels'' \<mapsto> \<lparr>stat_interactions = 0, avgHoverTime = 0, traced = 0\<rparr>],
      interactions = []\<rparr>"
  by (simp add: categorizeElements_def constructor_def getPriority_def skip_def
        highPriority_def mediumPriority_def Let_def)

text \<open>
  Claim C3. The example of the claim holds: three hovers of 1000, 2000 and 3000 ms
  leave an average of 2000 (and so does every sequence of calls with positive
  durations only, by \<open>record_calls_mean\<close>). The general statement does not hold on the code: the
  divisor \<open>stats.interactions\<close> counts every call for the type, also the calls with a
  duration of 0 that leave the average untouched. After a hover of 1000 ms, a circle
  recorded with duration 0 and a hover of 2000 ms (the sequence that
  \<open>ultraRealisticInteraction\<close> produces), the stored average is \<open>4000/3\<close>, and the mean
  of the two positive durations is 1500.
\<close>

theorem recordInteraction_average_divergence:
  "map_option avgHoverTime (elementStats
     (recordInteraction (recordInteraction (recordInteraction
        (snd (categorizeElements constructor [(''chartLabels'', [0::nat])] ()))
        ''chartLabels'' (0::nat) 1000 ''hover'' 1)
        ''chartLabels'' (0::nat) 2000 ''hover'' 2)
        ''chartLabels'' (0::nat) 3000 ''hover'' 3) ''chartLabels'') = Some 2000
   \<and> map_option avgHoverTime (elementStats
     (recordInteraction (recordInteraction (recordInteraction
        (snd (categorizeElements constructor [(''chartLabels'', [0::nat])] ()))
        ''chartLabels'' (0::nat) 1000 ''hover'' 1)
        ''chartLabels'' (0::nat) 0 ''circle'' 2)
        ''chartLabels'' (0::nat) 2000 ''hover'' 3) ''chartLabels'') = Some (4000 / 3)
   \<and> (1000 + 2000) / 2 = (1500 :: real)
   \<and> (4000 / 3 :: real) \<noteq> 1500"
  by (simp add: categorizeElements_chartLabels recordInteraction_def Let_def)
section \<open>Properties of the motion engine\<close>

subsection \<open>The easing function\<close>

lemma Math_pow_Fin: "Math_pow (Fin a) n = Fin (a ^ n)"
  by (cases n) simp_all

lemma easeInOutCubic_Fin:
  "easeInOutCubic (Fin t) = Fin (if t < 1 / 2 then 4 * t * t * t else 1 - (- 2 * t + 2) ^ 3 / 2)"
  by (simp add: easeInOutCubic_def minus_jsnum_def Math_pow_Fin)

lemma cube_mono: "0 \<le> a \<Longrightarrow> a \<le> b \<Longrightarrow> a ^ 3 \<le> b ^ 3" for a b :: real
  by (rule power_mono)

lemma ease_real_mono:
  fixes s t :: real
  assumes "0 \<le> s" and "s \<le> t" and "t \<le> 1"
  shows "(if s < 1 / 2 then 4 * s * s * s else 1 - (- 2 * s + 2) ^ 3 / 2)
       \<le> (if t < 1 / 2 then 4 * t * t * t else 1 - (- 2 * t + 2) ^ 3 / 2)"
proof -
  have cube: "4 * u * u * u = 4 * u ^ 3" for u :: real
    by (simp add: power3_eq_cube)
  consider (low) "t < 1 / 2" | (cross) "s < 1 / 2" "1 / 2 \<le> t" | (up) "1 / 2 \<le> s"
    by linarith
  then show ?thesis
  proof cases
    case low
    then have "s < 1 / 2" using assms by linarith
    moreover have "s ^ 3 \<le> t ^ 3" using assms by (intro cube_mono)
    ultimately show ?thesis using low by (simp add: cube)
  next
    case cross
    have "s ^ 3 \<le> (1 / 2) ^ 3" using assms cross by (intro cube_mono) simp_all
    then have a: "4 * s ^ 3 \<le> 1 / 2" by (simp add: power3_eq_cube)
    have "(- 2 * t + 2) ^ 3 \<le> 1 ^ 3" using assms cross by (intro cube_mono) simp_all
    then have b: "1 / 2 \<le> 1 - (- 2 * t + 2) ^ 3 / 2" by simp
    show ?thesis using cross a b by (simp add: cube)
  next
    case up
    then have t: "1 / 2 \<le> t" using assms by linarith
    have "(- 2 * t + 2) ^ 3 \<le> (- 2 * s + 2) ^ 3" using assms by (intro cube_mono) simp_all
    then show ?thesis using up t by simp
  qed
qed

text \<open>
  Claim C8. On finite arguments \<open>easeInOutCubic\<close> is the function
  \<open>t < 0.5 ? 4t\<^sup>3 : 1 - (-2t + 2)\<^sup>3 / 2\<close> over the reals. For \<open>0 \<le> s \<le> t \<le> 1\<close> its
  values at \<open>s\<close> and \<open>t\<close> are finite and in that order (also in the sense of
  JavaScript's \<open><=\<close>), and it maps 0 to 0, 0.5 to 0.5 and 1 to 1.
\<close>

theorem easeInOutCubic_monotone:
  assumes "0 \<le> s" and "s \<le> t" and "t \<le> 1"
  shows "(\<exists>a b. easeInOutCubic (Fin s) = Fin a \<and> easeInOutCubic (Fin t) = Fin b \<and> a \<le> b)
       \<and> easeInOutCubic (Fin s) \<le> easeInOutCubic (Fin t)
       \<and> easeInOutCubic (Fin 0) = Fin 0
       \<and> easeInOutCubic (Fin 0.5) = Fin 0.5
       \<and> easeInOutCubic (Fin 1) = Fin 1"
  using ease_real_mono [OF assms]
  by (simp add: easeInOutCubic_Fin del: mult_minus_left)

theorem easeInOutCubic_monotone_witness:
  "easeInOutCubic (Fin (1 / 4)) = Fin (1 / 16)
   \<and> easeInOutCubic (Fin (3 / 4)) = Fin (15 / 16)
   \<and> easeInOutCubic (Fin (1 / 4)) \<le> easeInOutCubic (Fin (3 / 4))"
proof -
  have h: "(0::real) \<le> 1 / 4" "(1 / 4 :: real) \<le> 3 / 4" "(3 / 4 :: real) \<le> 1" by simp_all
  from easeInOutCubic_monotone [OF h] show ?thesis
    by (simp add: easeInOutCubic_Fin power3_eq_cube)
qed

subsection \<open>The counting loops end, and what they visit\<close>

text \<open>
  The loops are followed for whole-number steps, where the counter of the code is
  exact.
\<close>

lemma floor_shift: "0 < s \<Longrightarrow> \<lfloor>(d - s) / s\<rfloor> = \<lfloor>d / s\<rfloor> - (1::int)" for d s :: real
  by (simp add: diff_divide_distrib)

lemma for_up_Fin:
  assumes "0 < n"
  shows "for_up (Fin i) (Fin b) (Fin (real n)) acc =
           Some (acc @ map (\<lambda>k. Fin (i + real k * real n)) [0..<nat (\<lfloor>(b - i) / real n\<rfloor> + 1)])"
proof -
  define s where "s = real n"
  have s: "0 < s" using assms by (simp add: s_def)
  have "for_up (Fin i) (Fin b) (Fin s) acc =
           Some (acc @ map (\<lambda>k. Fin (i + real k * s)) [0..<nat (\<lfloor>(b - i) / s\<rfloor> + 1)])"
  proof (induction "nat (\<lfloor>(b - i) / s\<rfloor> + 1)" arbitrary: i acc)
    case 0
    then have "\<lfloor>(b - i) / s\<rfloor> < 0" by linarith
    then have "(b - i) / s < 0" by linarith
    then have "b < i" using s by (simp add: divide_less_0_iff)
    then show ?case using 0 by (subst for_up.simps) simp
  next
    case (Suc m)
    then have "0 \<le> \<lfloor>(b - i) / s\<rfloor>" by linarith
    then have "0 \<le> (b - i) / s" by linarith
    then have le: "i \<le> b" using s by (simp add: zero_le_divide_iff)
    have "b - (i + s) = b - i - s" by simp
    then have fl: "\<lfloor>(b - (i + s)) / s\<rfloor> = \<lfloor>(b - i) / s\<rfloor> - 1"
      by (simp only: floor_shift [OF s])
    have m: "m = nat (\<lfloor>(b - (i + s)) / s\<rfloor> + 1)"
      using Suc.hyps(2) fl by linarith
    have cnt: "nat (\<lfloor>(b - i) / s\<rfloor> + 1) = Suc m"
      using Suc.hyps(2) by simp
    have "for_up (Fin i) (Fin b) (Fin s) acc = for_up (Fin (i + s)) (Fin b) (Fin s) (acc @ [Fin i])"
      using le by (subst for_up.simps) simp
    also have "\<dots> = Some ((acc @ [Fin i]) @ map (\<lambda>k. Fin (i + s + real k * s)) [0..<m])"
      using Suc.hyps(1) [OF m, of "acc @ [Fin i]"] m by simp
    also have "(acc @ [Fin i]) @ map (\<lambda>k. Fin (i + s + real k * s)) [0..<m]
               = acc @ map (\<lambda>k. Fin (i + real k * s)) [0..<Suc m]"
      by (simp add: map_upt_Suc algebra_simps del: upt_Suc)
    finally show ?case by (simp only: cnt)
  qed
  then show ?thesis by (simp only: s_def)
qed

lemma for_down_Fin:
  assumes "0 < n"
  shows "for_down (Fin i) (Fin b) (Fin (real n)) acc =
           Some (acc @ map (\<lambda>k. Fin (i - real k * real n)) [0..<nat (\<lfloor>(i - b) / real n\<rfloor> + 1)])"
proof -
  define s where "s = real n"
  have s: "0 < s" using assms by (simp add: s_def)
  have "for_down (Fin i) (Fin b) (Fin s) acc =
           Some (acc @ map (\<lambda>k. Fin (i - real k * s)) [0..<nat (\<lfloor>(i - b) / s\<rfloor> + 1)])"
  proof (induction "nat (\<lfloor>(i - b) / s\<rfloor> + 1)" arbitrary: i acc)
    case 0
    then have "\<lfloor>(i - b) / s\<rfloor> < 0" by linarith
    then have "(i - b) / s < 0" by linarith
    then have "i < b" using s by (simp add: divide_less_0_iff)
    then show ?case using 0 by (subst for_down.simps) simp
  next
    case (Suc m)
    then have "0 \<le> \<lfloor>(i - b) / s\<rfloor>" by linarith
    then have "0 \<le> (i - b) / s" by linarith
    then have le: "b \<le> i" using s by (simp add: zero_le_divide_iff)
    have "i - s - b = i - b - s" by simp
    then have fl: "\<lfloor>(i - s - b) / s\<rfloor> = \<lfloor>(i - b) / s\<rfloor> - 1"
      by (simp only: floor_shift [OF s])
    have m: "m = nat (\<lfloor>(i - s - b) / s\<rfloor> + 1)"
      using Suc.hyps(2) fl by linarith
    have cnt: "nat (\<lfloor>(i - b) / s\<rfloor> + 1) = Suc m"
      using Suc.hyps(2) by simp
    have "for_down (Fin i) (Fin b) (Fin s) acc = for_down (Fin (i - s)) (Fin b) (Fin s) (acc @ [Fin i])"
      using le by (subst for_down.simps) (simp add: minus_jsnum_def)
    also have "\<dots> = Some ((acc @ [Fin i]) @ map (\<lambda>k. Fin (i - s - real k * s)) [0..<m])"
      using Suc.hyps(1) [OF m, of "acc @ [Fin i]"] m by simp
    also have "(acc @ [Fin i]) @ map (\<lambda>k. Fin (i - s - real k * s)) [0..<m]
               = acc @ map (\<lambda>k. Fin (i - real k * s)) [0..<Suc m]"
      by (simp add: map_upt_Suc algebra_simps del: upt_Suc)
    finally show ?case by (simp only: cnt)
  qed
  then show ?thesis by (simp only: s_def)
qed

lemma for_up_from_zero:
  assumes "0 < n" and "0 \<le> b"
  shows "for_up (Fin 0) (Fin b) (Fin (real n)) [] =
           Some (map (\<lambda>k. Fin (real k * real n)) [0..<nat \<lfloor>b / real n\<rfloor> + 1])"
proof -
  have "0 \<le> \<lfloor>b / real n\<rfloor>" using assms by simp
  then have "nat (\<lfloor>b / real n\<rfloor> + 1) = nat \<lfloor>b / real n\<rfloor> + 1" by linarith
  then show ?thesis using for_up_Fin [OF assms(1), of 0 b "[]"] by simp
qed

lemma for_down_to_zero:
  assumes "0 < n" and "0 \<le> b"
  shows "for_down (Fin b) (Fin 0) (Fin (real n)) [] =
           Some (map (\<lambda>k. Fin (b - real k * real n)) [0..<nat \<lfloor>b / real n\<rfloor> + 1])"
proof -
  have "0 \<le> \<lfloor>b / real n\<rfloor>" using assms by simp
  then have "nat (\<lfloor>b / real n\<rfloor> + 1) = nat \<lfloor>b / real n\<rfloor> + 1" by linarith
  then show ?thesis using for_down_Fin [OF assms(1), of b 0 "[]"] by simp
qed

subsection \<open>The outline trace\<close>

lemma traceElementOutline_Fin:
  assumes "0 \<le> w" and "0 \<le> h" and "0 < n"
  shows "traceElementOutline
           (Some \<lparr>box_x = Fin x, box_y = Fin y, box_width = Fin w, box_height = Fin h\<rparr>)
           (Fin (real n)) =
         Some (map (\<lambda>k. (Fin (x + real k * real n), Fin y)) [0..<nat \<lfloor>w / real n\<rfloor> + 1]
             @ map (\<lambda>k. (Fin (x + w), Fin (y + real k * real n))) [0..<nat \<lfloor>h / real n\<rfloor> + 1]
             @ map (\<lambda>k. (Fin (x + (w - real k * real n)), Fin (y + h))) [0..<nat \<lfloor>w / real n\<rfloor> + 1]
             @ map (\<lambda>k. (Fin x, Fin (y + (h - real k * real n)))) [0..<nat \<lfloor>h / real n\<rfloor> + 1])"
  using assms
  by (simp add: traceElementOutline_def for_up_from_zero for_down_to_zero Let_def comp_def
        del: upt_Suc)

lemma map_upt_first: "f 0 \<in> set (map f [0..<n + 1])"
  by (simp only: set_map set_upt) (rule imageI, simp)

lemma last_map_upt: "last (map f [0..<n + 1]) = f n"
  by simp

lemma floor_remainder:
  fixes h s :: real
  assumes "0 < s"
  shows "0 \<le> h - real_of_int \<lfloor>h / s\<rfloor> * s" and "h - real_of_int \<lfloor>h / s\<rfloor> * s < s"
proof -
  have cancel: "h / s * s = h" using assms by simp
  have "real_of_int \<lfloor>h / s\<rfloor> * s \<le> h / s * s"
    using assms by (intro mult_right_mono of_int_floor_le) simp
  then have "real_of_int \<lfloor>h / s\<rfloor> * s \<le> h" by (simp only: cancel)
  then show "0 \<le> h - real_of_int \<lfloor>h / s\<rfloor> * s" by simp
  have "h / s < real_of_int \<lfloor>h / s\<rfloor> + 1" by linarith
  then have "h / s * s < (real_of_int \<lfloor>h / s\<rfloor> + 1) * s"
    using assms by (intro mult_strict_right_mono)
  then have "h < (real_of_int \<lfloor>h / s\<rfloor> + 1) * s" by (simp only: cancel)
  then show "h - real_of_int \<lfloor>h / s\<rfloor> * s < s" by (simp add: algebra_simps)
qed

text \<open>
  Claim C9, amended. For a bounding box with finite corner, positive finite width and
  height, and a speed that is a positive whole number, \<open>traceElementOutline\<close> returns,
  and the coordinates it emits are the top edge left to right, the right edge
  downwards, the bottom edge right to left and the left edge upwards, each walked from
  its first corner in steps of \<open>speed\<close> for as long as the edge lasts. The path starts
  at the corner \<open>(x, y)\<close> and visits all four corners. Its last coordinate is
  \<open>(x, y + r)\<close> where \<open>r = height - speed * floor (height / speed)\<close>, the remainder of
  the height, with \<open>0 \<le> r < speed\<close>: it is the starting corner exactly when the height
  is a whole multiple of the speed.
\<close>

theorem traceElementOutline_path:
  assumes "0 < w" and "0 < h" and "1 \<le> n"
  shows "\<exists>path.
      traceElementOutline
        (Some \<lparr>box_x = Fin x, box_y = Fin y, box_width = Fin w, box_height = Fin h\<rparr>)
        (Fin (real n))
        = Some path
    \<and> path = map (\<lambda>k. (Fin (x + real k * real n), Fin y)) [0..<nat \<lfloor>w / real n\<rfloor> + 1]
           @ map (\<lambda>k. (Fin (x + w), Fin (y + real k * real n))) [0..<nat \<lfloor>h / real n\<rfloor> + 1]
           @ map (\<lambda>k. (Fin (x + (w - real k * real n)), Fin (y + h))) [0..<nat \<lfloor>w / real n\<rfloor> + 1]
           @ map (\<lambda>k. (Fin x, Fin (y + (h - real k * real n)))) [0..<nat \<lfloor>h / real n\<rfloor> + 1]
    \<and> hd path = (Fin x, Fin y)
    \<and> (Fin x, Fin y) \<in> set path
    \<and> (Fin (x + w), Fin y) \<in> set path
    \<and> (Fin (x + w), Fin (y + h)) \<in> set path
    \<and> (Fin x, Fin (y + h)) \<in> set path
    \<and> last path = (Fin x, Fin (y + (h - real_of_int \<lfloor>h / real n\<rfloor> * real n)))
    \<and> 0 \<le> h - real_of_int \<lfloor>h / real n\<rfloor> * real n
    \<and> h - real_of_int \<lfloor>h / real n\<rfloor> * real n < real n
    \<and> (last path = (Fin x, Fin y) \<longleftrightarrow> h = real_of_int \<lfloor>h / real n\<rfloor> * real n)"
proof -
  define s where "s = real n"
  have s: "0 < s" and n: "0 < n" using assms(3) by (simp_all add: s_def)
  define top where "top = map (\<lambda>k. (Fin (x + real k * s), Fin y)) [0..<nat \<lfloor>w / s\<rfloor> + 1]"
  define right where "right = map (\<lambda>k. (Fin (x + w), Fin (y + real k * s))) [0..<nat \<lfloor>h / s\<rfloor> + 1]"
  define bottom where
    "bottom = map (\<lambda>k. (Fin (x + (w - real k * s)), Fin (y + h))) [0..<nat \<lfloor>w / s\<rfloor> + 1]"
  define left where
    "left = map (\<lambda>k. (Fin x, Fin (y + (h - real k * s)))) [0..<nat \<lfloor>h / s\<rfloor> + 1]"
  define path where "path = top @ right @ bottom @ left"
  have run: "traceElementOutline
        (Some \<lparr>box_x = Fin x, box_y = Fin y, box_width = Fin w, box_height = Fin h\<rparr>) (Fin s)
        = Some path"
    using assms(1,2) traceElementOutline_Fin [of w h n x y, OF _ _ n]
    by (simp add: path_def top_def right_def bottom_def left_def s_def)
  have c1: "(Fin x, Fin y) \<in> set top"
    unfolding top_def
    using map_upt_first [of "\<lambda>k. (Fin (x + real k * s), Fin y)" "nat \<lfloor>w / s\<rfloor>"] by simp
  have c2: "(Fin (x + w), Fin y) \<in> set right"
    unfolding right_def
    using map_upt_first [of "\<lambda>k. (Fin (x + w), Fin (y + real k * s))" "nat \<lfloor>h / s\<rfloor>"] by simp
  have c3: "(Fin (x + w), Fin (y + h)) \<in> set bottom"
    unfolding bottom_def
    using map_upt_first [of "\<lambda>k. (Fin (x + (w - real k * s)), Fin (y + h))" "nat \<lfloor>w / s\<rfloor>"]
    by simp
  have c4: "(Fin x, Fin (y + h)) \<in> set left"
    unfolding left_def
    using map_upt_first [of "\<lambda>k. (Fin x, Fin (y + (h - real k * s)))" "nat \<lfloor>h / s\<rfloor>"] by simp
  have "top \<noteq> []" using c1 by auto
  then have first: "hd path = (Fin x, Fin y)"
    by (simp add: path_def top_def hd_map upt_conv_Cons del: upt_Suc)
  have "0 \<le> \<lfloor>h / s\<rfloor>" using assms(2) s by simp
  then have k: "real (nat \<lfloor>h / s\<rfloor>) = real_of_int \<lfloor>h / s\<rfloor>" by simp
  have "left \<noteq> []" using c4 by auto
  then have "last path = last left" by (simp add: path_def)
  also have "\<dots> = (Fin x, Fin (y + (h - real (nat \<lfloor>h / s\<rfloor>) * s)))"
    unfolding left_def by (rule last_map_upt)
  finally have final: "last path = (Fin x, Fin (y + (h - real_of_int \<lfloor>h / s\<rfloor> * s)))"
    by (simp only: k)
  have closes: "last path = (Fin x, Fin y) \<longleftrightarrow> h = real_of_int \<lfloor>h / s\<rfloor> * s"
    by (auto simp: final)
  have rem: "0 \<le> h - real_of_int \<lfloor>h / s\<rfloor> * s" "h - real_of_int \<lfloor>h / s\<rfloor> * s < s"
    using floor_remainder [OF s, of h] by simp_all
  have mem: "(Fin x, Fin y) \<in> set path" "(Fin (x + w), Fin y) \<in> set path"
    "(Fin (x + w), Fin (y + h)) \<in> set path" "(Fin x, Fin (y + h)) \<in> set path"
    using c1 c2 c3 c4 by (simp_all add: path_def)
  have shape: "path = map (\<lambda>k. (Fin (x + real k * s), Fin y)) [0..<nat \<lfloor>w / s\<rfloor> + 1]
           @ map (\<lambda>k. (Fin (x + w), Fin (y + real k * s))) [0..<nat \<lfloor>h / s\<rfloor> + 1]
           @ map (\<lambda>k. (Fin (x + (w - real k * s)), Fin (y + h))) [0..<nat \<lfloor>w / s\<rfloor> + 1]
           @ map (\<lambda>k. (Fin x, Fin (y + (h - real k * s)))) [0..<nat \<lfloor>h / s\<rfloor> + 1]"
    by (simp only: path_def top_def right_def bottom_def left_def)
  from run shape first mem final rem closes show ?thesis
    unfolding s_def by blast
qed

theorem traceElementOutline_path_witness:
  "traceElementOutline
     (Some \<lparr>box_x = Fin 10, box_y = Fin 20, box_width = Fin 4, box_height = Fin 6\<rparr>) (Fin 2)
   = Some [(Fin 10, Fin 20), (Fin 12, Fin 20), (Fin 14, Fin 20),
           (Fin 14, Fin 20), (Fin 14, Fin 22), (Fin 14, Fin 24), (Fin 14, Fin 26),
           (Fin 14, Fin 26), (Fin 12, Fin 26), (Fin 10, Fin 26),
           (Fin 10, Fin 26), (Fin 10, Fin 24), (Fin 10, Fin 22), (Fin 10, Fin 20)]"
proof -
  have pos: "(0::real) < 4" "(0::real) < 6" "1 \<le> (2::nat)" by simp_all
  have fl: "nat \<lfloor>(4::real) / 2\<rfloor> + 1 = 3" "nat \<lfloor>(6::real) / 2\<rfloor> + 1 = 4" by simp_all
  have up3: "[0..<3] = [0, 1, 2::nat]" and up4: "[0..<4] = [0, 1, 2, 3::nat]"
    by (simp_all add: upt_rec)
  have two: "real (2::nat) = 2" by simp
  from traceElementOutline_path [OF pos, of 10 20]
  obtain path where run: "traceElementOutline
       (Some \<lparr>box_x = Fin 10, box_y = Fin 20, box_width = Fin 4, box_height = Fin 6\<rparr>) (Fin 2)
       = Some path"
    and shape: "path = map (\<lambda>k. (Fin (10 + real k * 2), Fin 20)) [0..<nat \<lfloor>(4::real) / 2\<rfloor> + 1]
           @ map (\<lambda>k. (Fin (10 + 4), Fin (20 + real k * 2))) [0..<nat \<lfloor>(6::real) / 2\<rfloor> + 1]
           @ map (\<lambda>k. (Fin (10 + (4 - real k * 2)), Fin (20 + 6))) [0..<nat \<lfloor>(4::real) / 2\<rfloor> + 1]
           @ map (\<lambda>k. (Fin 10, Fin (20 + (6 - real k * 2)))) [0..<nat \<lfloor>(6::real) / 2\<rfloor> + 1]"
    unfolding two by blast
  have "path = [(Fin 10, Fin 20), (Fin 12, Fin 20), (Fin 14, Fin 20),
           (Fin 14, Fin 20), (Fin 14, Fin 22), (Fin 14, Fin 24), (Fin 14, Fin 26),
           (Fin 14, Fin 26), (Fin 12, Fin 26), (Fin 10, Fin 26),
           (Fin 10, Fin 26), (Fin 10, Fin 24), (Fin 10, Fin 22), (Fin 10, Fin 20)]"
    unfolding shape fl up3 up4 by simp
  with run show ?thesis by simp
qed

text \<open>
  Claim C9, as stated, fails. A box of width 4 and height 5 at the origin, traced at
  the default speed 2: the left edge is walked at \<open>y = 5, 3, 1\<close> and the loop ends,
  since \<open>1 - 2 < 0\<close>. The last coordinate emitted is \<open>(0, 1)\<close>, not the starting
  corner \<open>(0, 0)\<close>.
\<close>

theorem traceElementOutline_open_counterexample:
  "traceElementOutline
     (Some \<lparr>box_x = Fin 0, box_y = Fin 0, box_width = Fin 4, box_height = Fin 5\<rparr>) (Fin 2)
   = Some [(Fin 0, Fin 0), (Fin 2, Fin 0), (Fin 4, Fin 0),
           (Fin 4, Fin 0), (Fin 4, Fin 2), (Fin 4, Fin 4),
           (Fin 4, Fin 5), (Fin 2, Fin 5), (Fin 0, Fin 5),
           (Fin 0, Fin 5), (Fin 0, Fin 3), (Fin 0, Fin 1)]
   \<and> last [(Fin 0, Fin 0), (Fin 2, Fin 0), (Fin 4, Fin 0),
           (Fin 4, Fin 0), (Fin 4, Fin 2), (Fin 4, Fin 4),
           (Fin 4, Fin 5), (Fin 2, Fin 5), (Fin 0, Fin 5),
           (Fin 0, Fin 5), (Fin 0, Fin 3), (Fin 0, Fin (1::real))] \<noteq> (Fin 0, Fin 0)"
  by (simp add: traceElementOutline_def for_up.simps for_down.simps minus_jsnum_def Let_def)

subsection \<open>The curves of \<open>moveMouse\<close> and \<open>swiftMoveTo\<close>\<close>

lemma for_up_count:
  "for_up (Fin 0) (Fin (real n)) (Fin 1) [] = Some (map (\<lambda>k. Fin (real k)) [0..<n + 1])"
proof -
  have "0 < (1::nat)" by simp
  from for_up_from_zero [OF this, of "real n"] show ?thesis by simp
qed

lemma random_Fin: "random (Fin lo) (Fin hi) r = Fin (r * (hi - lo) + lo)"
  by (simp add: random_def minus_jsnum_def)

lemma bezier_step_Fin:
  assumes "0 < n"
  shows "bezier_step (Fin fx) (Fin fy) (Fin tx) (Fin ty) (Fin cx) (Fin cy) (Fin (real n)) (Fin (real k)) =
    (let e = (if real k / real n < 1 / 2 then 4 * (real k / real n) * (real k / real n) * (real k / real n)
              else 1 - (- 2 * (real k / real n) + 2) ^ 3 / 2)
     in (Fin ((1 - e) * (1 - e) * fx + 2 * (1 - e) * e * (fx + cx) + e * e * tx),
         Fin ((1 - e) * (1 - e) * fy + 2 * (1 - e) * e * (fy + cy) + e * e * ty)))"
  using assms by (simp add: bezier_step_def easeInOutCubic_Fin minus_jsnum_def Let_def)

lemma bezier_step_last:
  assumes "0 < n"
  shows "bezier_step (Fin fx) (Fin fy) (Fin tx) (Fin ty) (Fin cx) (Fin cy) (Fin (real n)) (Fin (real n)) =
    (Fin tx, Fin ty)"
  using assms by (simp add: bezier_step_Fin Let_def)

lemma bezier_path_last:
  assumes "0 < n"
  shows "last (map (bezier_step (Fin fx) (Fin fy) (Fin tx) (Fin ty) (Fin cx) (Fin cy) (Fin (real n)))
            (map (\<lambda>k. Fin (real k)) [0..<n + 1])) = (Fin tx, Fin ty)"
  using assms by (simp add: bezier_step_last last_map)

lemma swift_steps:
  "\<exists>n. 20 \<le> n \<and> n \<le> 40 \<and>
     Math_max (Fin 20) (Math_min (Fin 40)
       (Math_floor (Math_sqrt (Math_pow (Fin tx - Fin fx) 2 + Math_pow (Fin ty - Fin fy) 2) / Fin 15)))
     = Fin (real n)"
proof -
  define d where "d = sqrt ((tx - fx) ^ 2 + (ty - fy) ^ 2)"
  define m where "m = max 20 (min 40 \<lfloor>d / 15\<rfloor>)"
  have dist: "Math_sqrt (Math_pow (Fin tx - Fin fx) 2 + Math_pow (Fin ty - Fin fy) 2) = Fin d"
    by (simp add: minus_jsnum_def Math_pow_Fin d_def not_less)
  have "Math_max (Fin 20) (Math_min (Fin 40) (Math_floor (Fin d / Fin 15))) = Fin (real_of_int m)"
    by (auto simp: Math_max_def Math_min_def m_def)
  moreover have "real_of_int m = real (nat m)" "20 \<le> nat m" "nat m \<le> 40"
    by (simp_all add: m_def)
  ultimately show ?thesis unfolding dist by metis
qed


text \<open>
  Claim C4. For finite start and target points, a whole step count \<open>n \<ge> 1\<close> and any
  three draws, \<open>moveMouse\<close> returns after emitting \<open>n + 1\<close> coordinates, the last of
  which is the target \<open>(toX, toY)\<close>; \<open>swiftMoveTo\<close>, whose step count is computed from
  the distance, returns after emitting between 21 and 41 coordinates, the last of
  which is the target. In this model of the arithmetic the last coordinate is the
  target exactly, not only up to rounding.
\<close>

theorem endpoint_convergence:
  assumes "1 \<le> n"
  shows "(\<exists>path. moveMouse (Fin fromX) (Fin fromY) (Fin toX) (Fin toY) (Fin (real n)) r1 r2 r3
                 = Some path
              \<and> length path = n + 1 \<and> last path = (Fin toX, Fin toY))
       \<and> (\<exists>path. swiftMoveTo (Fin fromX) (Fin fromY) (Fin toX) (Fin toY) r1 r2 r3 = Some path
              \<and> 21 \<le> length path \<and> length path \<le> 41 \<and> last path = (Fin toX, Fin toY))"
proof -
  have n: "0 < n" using assms by simp
  have approach: "\<exists>path. moveMouse (Fin fromX) (Fin fromY) (Fin toX) (Fin toY) (Fin (real n)) r1 r2 r3
                 = Some path
              \<and> length path = n + 1 \<and> last path = (Fin toX, Fin toY)"
    using bezier_path_last [OF n]
    by (simp add: moveMouse_def random_Fin minus_jsnum_def for_up_count Let_def del: upt_Suc)
  obtain m where m: "20 \<le> m" "m \<le> 40"
    and steps: "Math_max (Fin 20) (Math_min (Fin 40)
       (Math_floor (Math_sqrt (Math_pow (Fin toX - Fin fromX) 2 + Math_pow (Fin toY - Fin fromY) 2)
          / Fin 15))) = Fin (real m)"
    using swift_steps [of toX fromX toY fromY] by blast
  have m0: "0 < m" using m by simp
  have swift: "\<exists>path. swiftMoveTo (Fin fromX) (Fin fromY) (Fin toX) (Fin toY) r1 r2 r3 = Some path
              \<and> 21 \<le> length path \<and> length path \<le> 41 \<and> last path = (Fin toX, Fin toY)"
    unfolding swiftMoveTo_def Let_def steps
    using bezier_path_last [OF m0] m
    by (simp add: random_Fin minus_jsnum_def for_up_count del: upt_Suc)
  from approach swift show ?thesis by (rule conjI)
qed

theorem endpoint_convergence_witness:
  "moveMouse (Fin 0) (Fin 0) (Fin 40) (Fin 40) (Fin 2) (1 / 2) 0 0
     = Some [(Fin 0, Fin 0), (Fin (- 15), Fin (- 15)), (Fin 40, Fin 40)]
   \<and> last [(Fin 0, Fin 0), (Fin (- 15), Fin (- 15)), (Fin 40, Fin (40::real))] = (Fin 40, Fin 40)"
proof -
  have run: "moveMouse (Fin 0) (Fin 0) (Fin 40) (Fin 40) (Fin 2) (1 / 2) 0 0
     = Some [(Fin 0, Fin 0), (Fin (- 15), Fin (- 15)), (Fin 40, Fin 40)]"
    by (simp add: moveMouse_def for_up.simps minus_jsnum_def bezier_step_def
          easeInOutCubic_def random_def Let_def eval_nat_numeral)
  have h: "1 \<le> (2::nat)" by simp
  from endpoint_convergence [OF h, of 0 0 40 40 "1 / 2" 0 0]
  obtain path where p: "moveMouse (Fin 0) (Fin 0) (Fin 40) (Fin 40) (Fin (real 2)) (1 / 2) 0 0
       = Some path" and l: "last path = (Fin 40, Fin 40)"
    by blast
  from p run have "path = [(Fin 0, Fin 0), (Fin (- 15), Fin (- 15)), (Fin 40, Fin 40)]"
    by simp
  with l run show ?thesis by simp
qed

subsection \<open>What reaches the pointer-move collaborator\<close>


















text \<open>
  No generator tests what it computed either: with a step count of 0 the progress is
  \<open>0 / 0\<close>, and \<open>moveMouse\<close> passes \<open>NaN\<close> to the move.
\<close>

lemma moveMouse_zero_steps:
  "moveMouse (Fin 0) (Fin 0) (Fin 40) (Fin 40) (Fin 0) (1 / 2) 0 0 = Some [(NaN, NaN)]"
  by (simp add: moveMouse_def for_up.simps minus_jsnum_def bezier_step_def
        easeInOutCubic_def random_def inf_of_sign_def Let_def eval_nat_numeral)




end
